theory Spec2Isabelle
  imports Main
begin

section \<open>Python values used by the GFF3 module\<close>

text \<open>
  The module \<^verbatim>\<open>skbio/io/format/gff3.py\<close> works on Python \<^verbatim>\<open>str\<close> values. They are
  modelled as \<^typ>\<open>string\<close>; the model covers ASCII text, where one \<^typ>\<open>char\<close> is one
  character. A file handle is modelled by the list of lines that iterating over it
  yields (every line but possibly the last ends with a newline character).
\<close>

abbreviation TAB :: char where
  "TAB \<equiv> CHR 0x09"

abbreviation NL :: char where
  "NL \<equiv> CHR 0x0A"

text \<open>
  The exceptions the module can raise. \<^verbatim>\<open>GFF3FormatError\<close> is raised at two places of
  \<^verbatim>\<open>_parse_record\<close>; the message records the place and the text interpolated into the
  message: \<^verbatim>\<open>'do not have 9 columns in this line: "%s"' % line\<close> and
  \<^verbatim>\<open>'unknown value for phase column: {!r}'.format(phase)\<close>.
\<close>

datatype gff3_message = NotNineColumns string | UnknownPhase string

datatype py_error =
    GFF3FormatError gff3_message
  | ValueError
  | NameError string
  | TypeError
  | StopIteration
  | InsufficientRecords

text \<open>Whitespace as \<^verbatim>\<open>str.isspace\<close>, \<^verbatim>\<open>str.strip\<close> and the pattern \<^verbatim>\<open>\s\<close> see it (ASCII).\<close>

definition isspace :: "char \<Rightarrow> bool" where
  "isspace c = (let n = (of_char c :: nat) in (9 \<le> n \<and> n \<le> 13) \<or> (28 \<le> n \<and> n \<le> 32))"

text \<open>\<^verbatim>\<open>s.strip()\<close>\<close>

definition strip :: "string \<Rightarrow> string" where
  "strip s = rev (dropWhile isspace (rev (dropWhile isspace s)))"

text \<open>\<^verbatim>\<open>s.startswith(p)\<close>\<close>

definition startswith :: "string \<Rightarrow> string \<Rightarrow> bool" where
  "startswith s p = (take (length p) s = p)"

text \<open>\<^verbatim>\<open>s.split(sep)\<close> for a one-character separator: never empty, one more part than
  there are separators.\<close>

fun split_on :: "char \<Rightarrow> string \<Rightarrow> string list" where
  "split_on sep [] = [[]]"
| "split_on sep (c # cs) =
     (if c = sep then [] # split_on sep cs
      else (case split_on sep cs of
              w # ws \<Rightarrow> (c # w) # ws
            | [] \<Rightarrow> [[c]]))"

text \<open>\<^verbatim>\<open>s.split(sep, 1)\<close>: split at the first separator only.\<close>

definition split_once :: "char \<Rightarrow> string \<Rightarrow> string list" where
  "split_once sep s =
     (if sep \<in> set s
      then [takeWhile (\<lambda>c. c \<noteq> sep) s, tl (dropWhile (\<lambda>c. c \<noteq> sep) s)]
      else [s])"

section \<open>The line source\<close>

text \<open>
  Modelled from the spec: \<^verbatim>\<open>_line_generator(fh, skip_blanks, strip)\<close> of
  \<^verbatim>\<open>skbio.io.format._base\<close> is imported by the module and is not part of the sources.
  The spec describes the line source as a forward-only sequence of lines, trimmed when
  asked to, with blank-line skipping. A line is blank when it is empty or consists of
  whitespace only.
\<close>

definition line_generator :: "string list \<Rightarrow> bool \<Rightarrow> bool \<Rightarrow> string list" where
  "line_generator fh skip_blanks strip_lines =
     filter (\<lambda>line. \<not> (skip_blanks \<and> list_all isspace line))
       (map (\<lambda>line. if strip_lines then strip line else line) fh)"

text \<open>
  Modelled from the spec: \<^verbatim>\<open>_too_many_blanks(fh, max_blanks)\<close>, not part of the sources.
  The spec: skip up to a bounded number of leading blank lines; the budget is exceeded
  when more leading lines than that are blank.
\<close>

definition too_many_blanks :: "string list \<Rightarrow> nat \<Rightarrow> bool" where
  "too_many_blanks fh max_blanks = (max_blanks < length (takeWhile (list_all isspace) fh))"

section \<open>The record grouper\<close>

text \<open>
  \<^verbatim>\<open>_yield_record\<close> is a generator. Its run is modelled by the list of the groups it
  yields, in order, and the exception that ends it, if any. The variable \<^verbatim>\<open>current\<close>
  holds \<^verbatim>\<open>False\<close> or a sequence identifier: \<^term>\<open>None\<close> stands for \<^verbatim>\<open>False\<close>. A yielded
  group holds the buffer as it is when it is yielded.

  \<^verbatim>\<open>seq_id, _ = line.split('\t', 1)\<close> raises \<^verbatim>\<open>ValueError\<close> unless the split has two
  parts.
\<close>

type_synonym record_group = "string option \<times> string list"

fun yield_record_loop ::
  "string list \<Rightarrow> string option \<Rightarrow> string list \<Rightarrow> record_group list \<times> py_error option" where
  "yield_record_loop lines current [] = ([(current, lines)], None)"
| "yield_record_loop lines current (line # rest) =
     (if startswith line ''#'' then yield_record_loop lines current rest
      else (case split_once TAB line of
              [seq_id, _] \<Rightarrow>
                (if current = Some seq_id \<or> current = None
                 then yield_record_loop (lines @ [line]) current rest
                 else (case yield_record_loop lines None rest of
                         (groups, err) \<Rightarrow> ((current, lines) # groups, err)))
            | _ \<Rightarrow> ([], Some ValueError)))"

definition yield_record :: "string list \<Rightarrow> record_group list \<times> py_error option" where
  "yield_record fh = yield_record_loop [] None (line_generator fh True True)"

text \<open>
  Modelled from the spec: \<^verbatim>\<open>_get_nth_sequence\<close> of \<^verbatim>\<open>skbio.io.format._base\<close> (imported
  as \<^verbatim>\<open>_get_nth_record\<close>) is not part of the sources. The spec: a helper that, given the
  lazy sequence of groups, returns the N-th group (1-based) or fails if the stream has
  fewer groups than requested. The generator is only run as far as the N-th group; an
  exception it raises before reaching that group propagates.
\<close>

definition get_nth_record ::
  "record_group list \<times> py_error option \<Rightarrow> nat \<Rightarrow> py_error + record_group" where
  "get_nth_record gen n =
     (case gen of (groups, err) \<Rightarrow>
        if 1 \<le> n \<and> n \<le> length groups then Inr (groups ! (n - 1))
        else (case err of Some e \<Rightarrow> Inl e | None \<Rightarrow> Inl InsufficientRecords))"

section \<open>The feature collection\<close>

text \<open>
  Metadata values are Python objects: the module stores strings, and an integer in the
  branch for a phase that is already an \<^verbatim>\<open>int\<close>.
\<close>

datatype pyval = PyStr string | PyInt int

record interval =
  bounds :: "(int \<times> int) list"
  metadata :: "string \<rightharpoonup> pyval"

text \<open>
  Modelled from the spec: \<^verbatim>\<open>IntervalMetadata\<close> of \<^verbatim>\<open>skbio.metadata\<close> is not part of the
  sources. The spec: a container that exposes \<^verbatim>\<open>add(bounds, metadata)\<close> (no dedup) and an
  ordered iteration over its records, in insertion order. It is modelled by the list
  \<^verbatim>\<open>_intervals\<close> of its records; \<^verbatim>\<open>add\<close> appends one.
\<close>

type_synonym interval_metadata = "interval list"

definition interval_metadata_add ::
  "interval_metadata \<Rightarrow> (int \<times> int) list \<Rightarrow> (string \<rightharpoonup> pyval) \<Rightarrow> interval_metadata" where
  "interval_metadata_add imd bs md = imd @ [\<lparr>bounds = bs, metadata = md\<rparr>]"

section \<open>The column parser\<close>

text \<open>
  \<^verbatim>\<open>int(s)\<close> on a string: surrounding whitespace is ignored, a sign may come first, then
  decimal digits, where single underscores may stand between digits. Anything else raises
  \<^verbatim>\<open>ValueError\<close>. The whitespace that \<^verbatim>\<open>int\<close> ignores around an ASCII literal is that of
  the C locale, the codes 9 to 13 and 32: unlike \<^verbatim>\<open>str.strip\<close>, it does not take the
  separators 28 to 31 for whitespace, so \<^verbatim>\<open>int('1\x1c')\<close> raises. The interpreter's
  configurable limit on the number of digits of a literal is not modelled.
\<close>

definition int_isspace :: "char \<Rightarrow> bool" where
  "int_isspace c = (let n = (of_char c :: nat) in (9 \<le> n \<and> n \<le> 13) \<or> n = 32)"

definition int_strip :: "string \<Rightarrow> string" where
  "int_strip s = rev (dropWhile int_isspace (rev (dropWhile int_isspace s)))"

definition isdigit :: "char \<Rightarrow> bool" where
  "isdigit c = (let n = (of_char c :: nat) in 48 \<le> n \<and> n \<le> 57)"

definition digit_value :: "char \<Rightarrow> int" where
  "digit_value c = int (of_char c) - 48"

fun int_digits :: "bool \<Rightarrow> int \<Rightarrow> string \<Rightarrow> int option" where
  "int_digits after_digit acc [] = (if after_digit then Some acc else None)"
| "int_digits after_digit acc (c # cs) =
     (if isdigit c then int_digits True (10 * acc + digit_value c) cs
      else if c = CHR ''_'' \<and> after_digit then int_digits False acc cs
      else None)"

definition py_int :: "string \<Rightarrow> py_error + int" where
  "py_int s =
     (let t = int_strip s;
          signed = (case t of
                      [] \<Rightarrow> (1, t)
                    | c # cs \<Rightarrow>
                        if c = CHR ''-'' then (- 1, cs)
                        else if c = CHR ''+'' then (1, cs)
                        else (1, t))
      in case int_digits False 0 (snd signed) of
           None \<Rightarrow> Inl ValueError
         | Some n \<Rightarrow> Inr (fst signed * n))"

text \<open>
  \<^verbatim>\<open>isinstance(phase, int)\<close>, where \<^verbatim>\<open>phase\<close> is an element of the result of
  \<^verbatim>\<open>line.split('\t')\<close>: a \<^verbatim>\<open>str\<close> is never an instance of \<^verbatim>\<open>int\<close>.
\<close>

definition isinstance_int :: "string \<Rightarrow> bool" where
  "isinstance_int phase = False"

text \<open>
  The body of the loop of \<^verbatim>\<open>_parse_record\<close> up to the call of \<^verbatim>\<open>add\<close>: the bounds and
  the metadata computed from one line, or the exception raised.
\<close>

definition parse_record_line ::
  "string \<Rightarrow> py_error + ((int \<times> int) list \<times> (string \<rightharpoonup> pyval))" where
  "parse_record_line line =
     (let columns = split_on TAB line in
      if length columns \<noteq> 9 then Inl (GFF3FormatError (NotNineColumns line))
      else
        let md = [''source'' \<mapsto> PyStr (columns ! 1),
                  ''type'' \<mapsto> PyStr (columns ! 2),
                  ''score'' \<mapsto> PyStr (columns ! 5),
                  ''strand'' \<mapsto> PyStr (columns ! 6)];
            phase = columns ! 7;
            checked =
              (if isinstance_int phase
               then (case py_int phase of
                       Inl e \<Rightarrow> Inl e
                     | Inr n \<Rightarrow> Inr (md(''phase'' \<mapsto> PyInt n)))
               else if phase \<noteq> ''.''
               then Inl (GFF3FormatError (UnknownPhase phase))
               else Inr md)
        in case checked of
             Inl e \<Rightarrow> Inl e
           | Inr md' \<Rightarrow>
               (case py_int (columns ! 3) of
                  Inl e \<Rightarrow> Inl e
                | Inr start \<Rightarrow>
                    (case py_int (columns ! 4) of
                       Inl e \<Rightarrow> Inl e
                     | Inr stop \<Rightarrow> Inr ([(start - 1, stop)], md'))))"

text \<open>
  \<^verbatim>\<open>_parse_record\<close> mutates the collection it is given and returns that same object. The
  model returns the state of the collection when the call ends, and the exception that
  ended it: \<^term>\<open>None\<close> when the call returns the collection.
\<close>

fun parse_record ::
  "string list \<Rightarrow> interval_metadata \<Rightarrow> interval_metadata \<times> py_error option" where
  "parse_record [] imd = (imd, None)"
| "parse_record (line # lines) imd =
     (case parse_record_line line of
        Inl e \<Rightarrow> (imd, Some e)
      | Inr (bs, md) \<Rightarrow> parse_record lines (interval_metadata_add imd bs md))"

text \<open>\<^verbatim>\<open>_gff3_to_interval_metadata\<close>, the reader of one sequence.\<close>

definition gff3_to_interval_metadata ::
  "string list \<Rightarrow> interval_metadata \<Rightarrow> nat \<Rightarrow> interval_metadata \<times> py_error option" where
  "gff3_to_interval_metadata fh imd rec_no =
     (case get_nth_record (yield_record fh) rec_no of
        Inl e \<Rightarrow> (imd, Some e)
      | Inr (seq_id, lines) \<Rightarrow> parse_record lines imd)"

section \<open>The attribute parser\<close>







section \<open>The writer\<close>

text \<open>\<^verbatim>\<open>str(n)\<close> for an integer: its decimal digits, after a minus sign when negative.\<close>

fun str_nat :: "nat \<Rightarrow> string" where
  "str_nat n =
     (if n < 10 then [''0123456789'' ! n]
      else str_nat (n div 10) @ [''0123456789'' ! (n mod 10)])"

declare str_nat.simps [simp del]

definition py_str :: "int \<Rightarrow> string" where
  "py_str i = (if i < 0 then CHR ''-'' # str_nat (nat (- i)) else str_nat (nat i))"

text \<open>
  The writer reads the global name \<^verbatim>\<open>_GFF3_HEADERS\<close>. The module neither defines nor
  imports a name \<^verbatim>\<open>_GFF3_HEADERS\<close>, so evaluating it raises \<^verbatim>\<open>NameError\<close>. The nested iterations of
  the writer take the binding of the name as an argument, \<^term>\<open>None\<close> for an unbound name,
  and \<open>GFF3_HEADERS\<close> is the binding in the module as it is written.
\<close>

definition GFF3_HEADERS :: "string list option" where
  "GFF3_HEADERS = None"

text \<open>The loop over \<^verbatim>\<open>_GFF3_HEADERS[1:]\<close>, which appends one column for each header.\<close>

fun write_columns ::
  "string list \<Rightarrow> int \<times> int \<Rightarrow> (string \<rightharpoonup> pyval) \<Rightarrow> pyval list \<Rightarrow> pyval list" where
  "write_columns [] bound md columns = columns"
| "write_columns (head # heads) bound md columns =
     write_columns heads bound md
       (columns @
        [if head = ''START'' then PyStr (py_str (fst bound + 1))
         else if head = ''END'' then PyStr (py_str (snd bound))
         else (case md head of Some v \<Rightarrow> v | None \<Rightarrow> PyStr ''.'')])"

text \<open>\<^verbatim>\<open>'\t'.join(columns)\<close>: \<^verbatim>\<open>TypeError\<close> when an item is not a string.\<close>

fun join_tab :: "pyval list \<Rightarrow> py_error + string" where
  "join_tab [] = Inr []"
| "join_tab (PyInt n # cs) = Inl TypeError"
| "join_tab [PyStr s] = Inr s"
| "join_tab (PyStr s # c # cs) =
     (case join_tab (c # cs) of Inl e \<Rightarrow> Inl e | Inr t \<Rightarrow> Inr (s @ TAB # t))"

text \<open>
  The loop over the bounds of one record. The list \<^verbatim>\<open>columns\<close> is created once for the
  record, before this loop, and every bound appends to it. The output is the list of the
  lines printed so far; the result is the output and the exception raised, if any.
\<close>

fun write_bounds ::
  "string list option \<Rightarrow> (string \<rightharpoonup> pyval) \<Rightarrow> (int \<times> int) list \<Rightarrow> pyval list \<Rightarrow> string list \<Rightarrow>
     string list \<times> py_error option" where
  "write_bounds headers md [] columns out = (out, None)"
| "write_bounds headers md (bound # rest) columns out =
     (case headers of
        None \<Rightarrow> (out, Some (NameError ''_GFF3_HEADERS''))
      | Some hs \<Rightarrow>
          (let columns' = write_columns (drop 1 hs) bound md columns in
           case join_tab columns' of
             Inl e \<Rightarrow> (out, Some e)
           | Inr line \<Rightarrow> write_bounds headers md rest columns' (out @ [line])))"

fun write_intervals ::
  "string list option \<Rightarrow> string \<Rightarrow> interval list \<Rightarrow> string list \<Rightarrow> string list \<times> py_error option" where
  "write_intervals headers seq_id [] out = (out, None)"
| "write_intervals headers seq_id (iv # ivs) out =
     (case write_bounds headers (metadata iv) (bounds iv) [PyStr seq_id] out of
        (out', Some e) \<Rightarrow> (out', Some e)
      | (out', None) \<Rightarrow> write_intervals headers seq_id ivs out')"

text \<open>\<^verbatim>\<open>_interval_metadata_to_gff3\<close>: the header line first, then the records.\<close>

definition interval_metadata_to_gff3 ::
  "interval_metadata \<Rightarrow> string \<Rightarrow> string list \<times> py_error option" where
  "interval_metadata_to_gff3 obj seq_id =
     write_intervals GFF3_HEADERS seq_id obj [''##gff-version 3'']"

section \<open>The sniffer\<close>

text \<open>\<^verbatim>\<open>next(gen)\<close> on the generator of lines: \<^verbatim>\<open>StopIteration\<close> when it is exhausted.\<close>

definition next_line :: "string list \<Rightarrow> py_error + string" where
  "next_line gen = (case gen of [] \<Rightarrow> Inl StopIteration | line # _ \<Rightarrow> Inr line)"

text \<open>
  \<^verbatim>\<open>re.match(r'##gff-version\s+3', line)\<close> as a truth value. The match is anchored at the
  start of the line. The character \<^verbatim>\<open>3\<close> is not whitespace, so the whitespace matched by
  \<^verbatim>\<open>\s+\<close> is the whole run of whitespace that follows the literal.
\<close>

definition match_gff_version :: "string \<Rightarrow> bool" where
  "match_gff_version line =
     (startswith line ''##gff-version'' \<and>
      (let rest = drop (length ''##gff-version'') line in
       takeWhile isspace rest \<noteq> [] \<and> startswith (dropWhile isspace rest) ''3''))"

text \<open>\<^verbatim>\<open>_gff3_sniffer\<close>: only \<^verbatim>\<open>StopIteration\<close> is caught.\<close>

definition gff3_sniffer :: "string list \<Rightarrow> py_error + (bool \<times> (string \<rightharpoonup> string))" where
  "gff3_sniffer fh =
     (if too_many_blanks fh 5 then Inr (False, Map.empty)
      else (case next_line (line_generator fh True False) of
              Inl StopIteration \<Rightarrow> Inr (False, Map.empty)
            | Inl e \<Rightarrow> Inl e
            | Inr line \<Rightarrow>
                if match_gff_version line then Inr (True, Map.empty)
                else Inr (False, Map.empty)))"

section \<open>Example inputs\<close>

text \<open>The version directive and data lines of the module's documentation and tests.\<close>

definition version_line :: string where
  "version_line = ''##gff-version'' @ TAB # ''3.2.1''"

definition gene_line :: string where
  "gene_line =
     ''ctg123'' @ TAB # ''.'' @ TAB # ''gene'' @ TAB # ''1000'' @ TAB # ''9000'' @ TAB #
     ''.'' @ TAB # ''+'' @ TAB # ''.'' @ TAB # ''ID=gene00001;Name=EDEN''"

text \<open>The record that the documentation shows for \<^verbatim>\<open>gene_line\<close>, with the metadata the
  module stores.\<close>

definition gene_record :: interval where
  "gene_record =
     \<lparr>bounds = [(999, 9000)],
      metadata = [''source'' \<mapsto> PyStr ''.'', ''type'' \<mapsto> PyStr ''gene'',
                  ''score'' \<mapsto> PyStr ''.'', ''strand'' \<mapsto> PyStr ''+'']\<rparr>"

definition other_line :: string where
  "other_line =
     ''ctg456'' @ TAB # ''.'' @ TAB # ''gene'' @ TAB # ''1'' @ TAB # ''9'' @ TAB #
     ''.'' @ TAB # ''+'' @ TAB # ''.'' @ TAB # ''ID=gene00002''"

definition cds_line :: string where
  "cds_line =
     ''ctg123'' @ TAB # ''Prodigal_v2.60'' @ TAB # ''CDS'' @ TAB # ''3'' @ TAB # ''98'' @ TAB #
     ''1.8'' @ TAB # ''+'' @ TAB # ''0'' @ TAB # ''ID=1_1''"

text \<open>A line of eight columns and a line of ten.\<close>

definition short_line :: string where
  "short_line =
     ''ctg123'' @ TAB # ''.'' @ TAB # ''gene'' @ TAB # ''1000'' @ TAB # ''9000'' @ TAB #
     ''.'' @ TAB # ''+'' @ TAB # ''.''"

definition long_line :: string where
  "long_line = gene_line @ TAB # ''extra''"

section \<open>Facts about strings\<close>

lemma length_split_on: "length (split_on sep s) = Suc (count_list s sep)"
  by (induction s) (auto split: list.splits)

lemma split_once_two: "sep \<in> set s \<Longrightarrow> \<exists>a b. split_once sep s = [a, b]"
  by (simp add: split_once_def)

lemma split_once_one: "sep \<notin> set s \<Longrightarrow> split_once sep s = [s]"
  by (simp add: split_once_def)

lemma in_set_dropWhile: "x \<in> set xs \<Longrightarrow> \<not> P x \<Longrightarrow> x \<in> set (dropWhile P xs)"
  by (induction xs) auto

lemma set_strip_subset: "set (strip s) \<subseteq> set s"
proof -
  have "set (strip s) \<subseteq> set (rev (dropWhile isspace s))"
    unfolding strip_def using set_dropWhileD by fastforce
  also have "\<dots> \<subseteq> set s"
    using set_dropWhileD by fastforce
  finally show ?thesis .
qed

lemma strip_not_blank:
  assumes "\<not> list_all isspace l"
  shows "\<not> list_all isspace (strip l)"
proof -
  from assms obtain x where x: "x \<in> set l" "\<not> isspace x"
    by (auto simp: list_all_iff)
  then have "x \<in> set (rev (dropWhile isspace l))"
    by (simp add: in_set_dropWhile)
  then have "x \<in> set (dropWhile isspace (rev (dropWhile isspace l)))"
    using x(2) by (rule in_set_dropWhile)
  then have "x \<in> set (strip l)"
    by (simp add: strip_def)
  with x(2) show ?thesis
    by (auto simp: list_all_iff)
qed

section \<open>The grouper never leaves the unset state\<close>

lemma yield_record_loop_unset:
  "yield_record_loop acc None ls =
     (if \<exists>l \<in> set ls. \<not> startswith l ''#'' \<and> TAB \<notin> set l
      then ([], Some ValueError)
      else ([(None, acc @ filter (\<lambda>l. \<not> startswith l ''#'') ls)], None))"
proof (induction ls arbitrary: acc)
  case Nil
  show ?case by simp
next
  case (Cons l ls)
  show ?case
  proof (cases "startswith l ''#''")
    case True
    then show ?thesis by (simp add: Cons.IH)
  next
    case False
    show ?thesis
    proof (cases "TAB \<in> set l")
      case True
      then obtain a b where "split_once TAB l = [a, b]"
        using split_once_two by blast
      with False True show ?thesis by (simp add: Cons.IH)
    next
      case no_tab: False
      then have "split_once TAB l = [l]" by (rule split_once_one)
      with False no_tab show ?thesis by simp
    qed
  qed
qed

section \<open>The record grouper: results\<close>

text \<open>
  C2 (grouping into maximal runs of one sequence identifier). The grouper never assigns
  a sequence identifier to \<^verbatim>\<open>current\<close>, so it never sees an identifier change: on an
  input with the run \<^verbatim>\<open>ctg123\<close>, the run \<^verbatim>\<open>ctg456\<close> and a second run \<^verbatim>\<open>ctg123\<close> it yields
  one single group, identified by \<^verbatim>\<open>False\<close>, that holds the lines of all three runs.
\<close>

theorem yield_record_two_sequences:
  "yield_record [version_line @ [NL], gene_line @ [NL], other_line @ [NL], gene_line @ [NL]] =
     ([(None, [gene_line, other_line, gene_line])], None)"
  by (simp add: yield_record_def line_generator_def strip_def isspace_def startswith_def
      split_once_def version_line_def gene_line_def other_line_def)

text \<open>
  C10 (a data line without a tab). If the stream holds a line that is not blank, is not
  a comment once trimmed, and has no tab character, the grouper raises \<^verbatim>\<open>ValueError\<close>
  from the unpacking of the split, and has yielded no group.
\<close>

theorem yield_record_no_tab_raises:
  assumes "l \<in> set fh" and "\<not> list_all isspace l"
    and "\<not> startswith (strip l) ''#''" and "TAB \<notin> set l"
  shows "yield_record fh = ([], Some ValueError)"
proof -
  have "strip l \<in> set (line_generator fh True True)"
    using assms(1) strip_not_blank [OF assms(2)] by (auto simp: line_generator_def)
  moreover have "TAB \<notin> set (strip l)"
    using assms(4) set_strip_subset by blast
  ultimately have
    "\<exists>x \<in> set (line_generator fh True True). \<not> startswith x ''#'' \<and> TAB \<notin> set x"
    using assms(3) by blast
  then show ?thesis
    by (simp add: yield_record_def yield_record_loop_unset)
qed

theorem yield_record_no_tab_raises_witness:
  "yield_record [version_line @ [NL], gene_line @ [NL], ''ctg123 . gene 1 9 . + . ID=g2'' @ [NL]] =
     ([], Some ValueError)"
proof -
  let ?l = "''ctg123 . gene 1 9 . + . ID=g2'' @ [NL]"
  let ?fh = "[version_line @ [NL], gene_line @ [NL], ?l]"
  have 1: "?l \<in> set ?fh" by simp
  have 2: "\<not> list_all isspace ?l" by (simp add: isspace_def)
  have 3: "\<not> startswith (strip ?l) ''#''" by (simp add: startswith_def strip_def isspace_def)
  have 4: "TAB \<notin> set ?l" by simp
  show ?thesis
    using yield_record_no_tab_raises [OF 1 2 3 4] .
qed

section \<open>The column parser: results\<close>

lemma py_int_error: "py_int s = Inl e \<Longrightarrow> e = ValueError"
  by (auto simp: py_int_def Let_def split: option.splits)

lemma split_on_gene_line:
  "split_on TAB gene_line =
     [''ctg123'', ''.'', ''gene'', ''1000'', ''9000'', ''.'', ''+'', ''.'',
      ''ID=gene00001;Name=EDEN'']"
  by (simp add: gene_line_def)

lemma py_int_1000: "py_int ''1000'' = Inr 1000"
  by (simp add: py_int_def int_strip_def int_isspace_def isdigit_def digit_value_def)

lemma py_int_9000: "py_int ''9000'' = Inr 9000"
  by (simp add: py_int_def int_strip_def int_isspace_def isdigit_def digit_value_def)

lemma py_int_3: "py_int ''3'' = Inr 3"
  by (simp add: py_int_def int_strip_def int_isspace_def isdigit_def digit_value_def)

lemma py_int_98: "py_int ''98'' = Inr 98"
  by (simp add: py_int_def int_strip_def int_isspace_def isdigit_def digit_value_def)

text \<open>The separator 28 is not whitespace for \<^verbatim>\<open>int\<close>: \<^verbatim>\<open>int('1\x1c')\<close> raises.\<close>

lemma py_int_file_separator: "py_int (''1'' @ [CHR 0x1C]) = Inl ValueError"
  by (simp add: py_int_def int_strip_def int_isspace_def isdigit_def digit_value_def)

lemma split_on_cds_line:
  "split_on TAB cds_line =
     [''ctg123'', ''Prodigal_v2.60'', ''CDS'', ''3'', ''98'', ''1.8'', ''+'', ''0'', ''ID=1_1'']"
  by (simp add: cds_line_def)

text \<open>
  C9 (column count). A line has one more tab-separated column than it has tab characters.
  A line that does not have exactly nine columns (eight tabs) makes \<^verbatim>\<open>_parse_record\<close>
  raise the format error for the column count, which carries the line; a line of nine
  columns never raises that error.
\<close>

theorem parse_record_column_count:
  "(count_list line TAB \<noteq> 8 \<longrightarrow>
      parse_record (line # lines) imd = (imd, Some (GFF3FormatError (NotNineColumns line)))) \<and>
   (count_list line TAB = 8 \<longrightarrow>
      (\<forall>l. snd (parse_record [line] imd) \<noteq> Some (GFF3FormatError (NotNineColumns l))))"
  by (auto simp: parse_record_line_def length_split_on Let_def isinstance_int_def
      split: sum.splits dest: py_int_error)

theorem parse_record_column_count_witness:
  "count_list short_line TAB = 7 \<and>
   parse_record [short_line] [] = ([], Some (GFF3FormatError (NotNineColumns short_line))) \<and>
   count_list long_line TAB = 9 \<and>
   parse_record [long_line] [] = ([], Some (GFF3FormatError (NotNineColumns long_line))) \<and>
   count_list gene_line TAB = 8 \<and>
   snd (parse_record [gene_line] []) \<noteq> Some (GFF3FormatError (NotNineColumns gene_line))"
proof -
  have c7: "count_list short_line TAB = 7" by (simp add: short_line_def)
  have c9: "count_list long_line TAB = 9" by (simp add: long_line_def gene_line_def)
  have c8: "count_list gene_line TAB = 8" by (simp add: gene_line_def)
  show ?thesis
    using parse_record_column_count [of short_line "[]" "[]"]
      parse_record_column_count [of long_line "[]" "[]"]
      parse_record_column_count [of gene_line "[]" "[]"] c7 c8 c9
    by simp
qed

text \<open>
  A line of nine columns whose phase column is \<^verbatim>\<open>.\<close> and whose start and end columns
  are accepted by \<^verbatim>\<open>int\<close>: \<^verbatim>\<open>_parse_record\<close> adds one record to the collection, the
  single bound \<^verbatim>\<open>(start - 1, end)\<close> and the metadata of the source, type, score and strand
  columns, and goes on with the rest of the group.
\<close>

lemma parse_record_bounds_metadata:
  assumes "split_on TAB line = [seqid, source, ftype, start, stop, score, strand, ''.'', attr]"
    and "py_int start = Inr s" and "py_int stop = Inr e"
  shows "parse_record (line # lines) imd =
           parse_record lines
             (imd @ [\<lparr>bounds = [(s - 1, e)],
                      metadata = [''source'' \<mapsto> PyStr source, ''type'' \<mapsto> PyStr ftype,
                                  ''score'' \<mapsto> PyStr score, ''strand'' \<mapsto> PyStr strand]\<rparr>])"
  using assms
  by (simp add: parse_record_line_def isinstance_int_def interval_metadata_add_def)

lemma parse_record_line_phase:
  assumes "length (split_on TAB line) = 9" and "split_on TAB line ! 7 \<noteq> ''.''"
  shows "parse_record_line line = Inl (GFF3FormatError (UnknownPhase (split_on TAB line ! 7)))"
  using assms by (simp add: parse_record_line_def isinstance_int_def)

text \<open>
  C4 (phase validation). The check \<^verbatim>\<open>isinstance(phase, int)\<close> is made on a string and is
  never true, so every phase column other than \<^verbatim>\<open>.\<close> is rejected, the integer literals
  \<^verbatim>\<open>0\<close>, \<^verbatim>\<open>1\<close> and \<^verbatim>\<open>2\<close> included: the line of the CDS feature of the tests, whose phase
  is \<^verbatim>\<open>0\<close>, raises the format error for the phase.
\<close>

theorem parse_record_phase_zero:
  "parse_record [cds_line] [] = ([], Some (GFF3FormatError (UnknownPhase ''0'')))"
  by (simp add: parse_record_line_def cds_line_def isinstance_int_def)

text \<open>
  C6 (coordinate conversion and stored metadata). The CDS line of the tests is a
  well-formed data line: it has nine columns, its start column \<^verbatim>\<open>3\<close> and its end column
  \<^verbatim>\<open>98\<close> are integer literals, and its phase is \<^verbatim>\<open>0\<close>; the tests expect the bound
  \<^verbatim>\<open>(2, 98)\<close> for it. Reading a stream with this line adds no bound to the collection,
  whatever the collection holds: \<^verbatim>\<open>_parse_record\<close> raises at the phase check, before it
  converts the coordinates.
\<close>

theorem gff3_to_interval_metadata_cds_line:
  "split_on TAB cds_line =
     [''ctg123'', ''Prodigal_v2.60'', ''CDS'', ''3'', ''98'', ''1.8'', ''+'', ''0'', ''ID=1_1''] \<and>
   py_int ''3'' = Inr 3 \<and> py_int ''98'' = Inr 98 \<and>
   gff3_to_interval_metadata [version_line @ [NL], cds_line @ [NL]] imd 1 =
     (imd, Some (GFF3FormatError (UnknownPhase ''0'')))"
proof -
  have "yield_record [version_line @ [NL], cds_line @ [NL]] = ([(None, [cds_line])], None)"
    by (simp add: yield_record_def line_generator_def strip_def isspace_def startswith_def
        split_once_def version_line_def cds_line_def)
  then have "gff3_to_interval_metadata [version_line @ [NL], cds_line @ [NL]] imd 1 =
      parse_record [cds_line] imd"
    by (simp add: gff3_to_interval_metadata_def get_nth_record_def)
  moreover have "parse_record [cds_line] imd =
      (imd, Some (GFF3FormatError (UnknownPhase ''0'')))"
    using parse_record_line_phase [of cds_line] by (simp add: split_on_cds_line)
  ultimately show ?thesis
    by (simp only: split_on_cds_line py_int_3 py_int_98 simp_thms)
qed

section \<open>Errors and the caller's collection\<close>

lemma parse_record_returns:
  "parse_record ls imd = (imd', None) \<Longrightarrow>
     length imd' = length imd + length ls \<and> take (length imd) imd' = imd"
proof (induction ls arbitrary: imd)
  case Nil
  then show ?case by simp
next
  case (Cons l ls)
  then obtain bs md where l: "parse_record_line l = Inr (bs, md)"
    by (cases "parse_record_line l") auto
  with Cons.prems have "parse_record ls (interval_metadata_add imd bs md) = (imd', None)"
    by simp
  from Cons.IH [OF this]
  have len: "length imd' = length (interval_metadata_add imd bs md) + length ls"
    and tk: "take (length (interval_metadata_add imd bs md)) imd' =
      interval_metadata_add imd bs md"
    by simp_all
  have "take (length imd) imd' =
      take (length imd) (take (length (interval_metadata_add imd bs md)) imd')"
    by (simp add: interval_metadata_add_def min_def)
  also have "\<dots> = imd"
    by (simp add: tk) (simp add: interval_metadata_add_def)
  finally show ?case using len by (simp add: interval_metadata_add_def)
qed

lemma parse_record_raises:
  "parse_record ls imd = (imd', Some err) \<Longrightarrow>
     \<exists>pre bad post. ls = pre @ bad # post \<and> parse_record pre imd = (imd', None) \<and>
       parse_record_line bad = Inl err"
proof (induction ls arbitrary: imd)
  case Nil
  then show ?case by simp
next
  case (Cons l ls)
  show ?case
  proof (cases "parse_record_line l")
    case (Inl e)
    with Cons.prems have "imd' = imd" "e = err" by simp_all
    with Inl have "l # ls = [] @ l # ls \<and> parse_record [] imd = (imd', None) \<and>
        parse_record_line l = Inl err"
      by simp
    then show ?thesis by blast
  next
    case (Inr r)
    obtain bs md where r: "r = (bs, md)" by (cases r)
    with Inr Cons.prems
    have "parse_record ls (interval_metadata_add imd bs md) = (imd', Some err)"
      by simp
    from Cons.IH [OF this] obtain pre bad post where
      ls: "ls = pre @ bad # post"
      and pre: "parse_record pre (interval_metadata_add imd bs md) = (imd', None)"
      and bad: "parse_record_line bad = Inl err"
      by blast
    from pre Inr r have "parse_record (l # pre) imd = (imd', None)" by simp
    with ls bad have "l # ls = (l # pre) @ bad # post \<and>
        parse_record (l # pre) imd = (imd', None) \<and> parse_record_line bad = Inl err"
      by simp
    then show ?thesis by blast
  qed
qed

lemma parse_record_gene_short:
  "parse_record [gene_line, short_line] [] =
     ([gene_record], Some (GFF3FormatError (NotNineColumns short_line)))"
proof -
  have "count_list short_line TAB = 7" by (simp add: short_line_def)
  then have "parse_record_line short_line = Inl (GFF3FormatError (NotNineColumns short_line))"
    by (simp add: parse_record_line_def length_split_on)
  moreover have "parse_record_line gene_line = Inr (bounds gene_record, metadata gene_record)"
    by (simp add: parse_record_line_def split_on_gene_line isinstance_int_def
        py_int_1000 py_int_9000 gene_record_def)
  ultimately show ?thesis
    by (simp add: interval_metadata_add_def gene_record_def)
qed

text \<open>
  C5 as the claim states it fails: a group whose first line is well formed and whose
  second line has eight columns raises, and the collection, empty before the call, holds
  the record of the first line afterwards.
\<close>

theorem parse_record_error_not_atomic:
  "snd (parse_record [gene_line, short_line] []) =
     Some (GFF3FormatError (NotNineColumns short_line)) \<and>
   fst (parse_record [gene_line, short_line] []) \<noteq> []"
  by (simp only: parse_record_gene_short fst_conv snd_conv) simp

text \<open>
  C5, amended. When parsing a group raises, the exception is the one raised for the first
  failing line; that line and the lines after it add nothing; the collection holds what
  parsing the lines before the failing line leaves in it: the caller's records, unchanged
  and in place, followed by one record for each of those lines.
\<close>

theorem parse_record_error_keeps_preceding:
  assumes "parse_record lines imd = (imd', Some err)"
  shows "\<exists>pre bad post. lines = pre @ bad # post \<and>
           parse_record_line bad = Inl err \<and>
           parse_record pre imd = (imd', None) \<and>
           length imd' = length imd + length pre \<and>
           take (length imd) imd' = imd"
proof -
  from parse_record_raises [OF assms] obtain pre bad post where
    *: "lines = pre @ bad # post" "parse_record pre imd = (imd', None)"
       "parse_record_line bad = Inl err"
    by blast
  from parse_record_returns [OF *(2)] * show ?thesis by blast
qed

theorem parse_record_error_keeps_preceding_witness:
  "\<exists>pre bad post. [gene_line, short_line] = pre @ bad # post \<and>
     parse_record_line bad = Inl (GFF3FormatError (NotNineColumns short_line)) \<and>
     parse_record pre [] = ([gene_record], None) \<and>
     length [gene_record] = length ([] :: interval list) + length pre \<and>
     take (length ([] :: interval list)) [gene_record] = []"
  by (rule parse_record_error_keeps_preceding [OF parse_record_gene_short])

section \<open>The writer: results\<close>

lemma write_bounds_unbound:
  "write_bounds None md bs columns out =
     (out, if bs = [] then None else Some (NameError ''_GFF3_HEADERS''))"
  by (cases bs) simp_all

lemma write_intervals_unbound:
  "write_intervals None seq_id obj out =
     (out, if list_ex (\<lambda>iv. bounds iv \<noteq> []) obj
           then Some (NameError ''_GFF3_HEADERS'') else None)"
  by (induction obj) (simp_all add: write_bounds_unbound)

text \<open>
  C3 (the writer is total). For a collection that holds a record with at least one
  bound, whatever the sequence identifier, the writer prints the header line and then
  raises \<^verbatim>\<open>NameError\<close>, since the module binds no name \<^verbatim>\<open>_GFF3_HEADERS\<close>: it does not run
  to completion.
\<close>

theorem interval_metadata_to_gff3_name_error:
  assumes "iv \<in> set obj" and "bounds iv \<noteq> []"
  shows "interval_metadata_to_gff3 obj seq_id =
           ([''##gff-version 3''], Some (NameError ''_GFF3_HEADERS''))"
proof -
  from assms have "list_ex (\<lambda>iv. bounds iv \<noteq> []) obj"
    by (auto simp: list_ex_iff)
  then show ?thesis
    by (simp add: interval_metadata_to_gff3_def GFF3_HEADERS_def write_intervals_unbound)
qed

theorem interval_metadata_to_gff3_name_error_witness:
  "gene_record \<in> set [gene_record] \<and> bounds gene_record \<noteq> [] \<and>
   interval_metadata_to_gff3 [gene_record] ''ctg123'' =
     ([''##gff-version 3''], Some (NameError ''_GFF3_HEADERS''))"
proof -
  have 1: "gene_record \<in> set [gene_record]" by simp
  have 2: "bounds gene_record \<noteq> []" by (simp add: gene_record_def)
  from interval_metadata_to_gff3_name_error [OF 1 2, of "''ctg123''"] 1 2
  show ?thesis by simp
qed

lemma yield_record_gene:
  "yield_record [version_line @ [NL], gene_line @ [NL]] = ([(None, [gene_line])], None)"
  by (simp add: yield_record_def line_generator_def strip_def isspace_def startswith_def
      split_once_def version_line_def gene_line_def)

lemma parse_record_gene: "parse_record [gene_line] [] = ([gene_record], None)"
  by (simp add: parse_record_line_def split_on_gene_line isinstance_int_def
      py_int_1000 py_int_9000 gene_record_def interval_metadata_add_def)

lemma write_columns_append:
  "\<exists>vs. write_columns heads bound md columns = columns @ vs \<and>
     set vs \<subseteq> {PyStr (py_str (fst bound + 1)), PyStr (py_str (snd bound)), PyStr ''.''} \<union> ran md"
proof (induction heads arbitrary: columns)
  case Nil
  show ?case by simp
next
  case (Cons h hs)
  let ?v = "if h = ''START'' then PyStr (py_str (fst bound + 1))
         else if h = ''END'' then PyStr (py_str (snd bound))
         else (case md h of Some v \<Rightarrow> v | None \<Rightarrow> PyStr ''.'')"
  have v: "?v \<in> {PyStr (py_str (fst bound + 1)), PyStr (py_str (snd bound)), PyStr ''.''} \<union> ran md"
    by (auto simp: ran_def split: option.splits)
  from Cons.IH [of "columns @ [?v]"] obtain vs where
    vs: "write_columns hs bound md (columns @ [?v]) = (columns @ [?v]) @ vs"
    "set vs \<subseteq> {PyStr (py_str (fst bound + 1)), PyStr (py_str (snd bound)), PyStr ''.''} \<union> ran md"
    by blast
  have "write_columns (h # hs) bound md columns = columns @ (?v # vs)"
    using vs(1) by simp
  moreover have "set (?v # vs) \<subseteq> {PyStr (py_str (fst bound + 1)), PyStr (py_str (snd bound)), PyStr ''.''} \<union> ran md"
    using v vs(2) by auto
  ultimately show ?case by blast
qed

lemma join_tab_last:
  "join_tab cols = Inr s \<Longrightarrow> cols \<noteq> [] \<Longrightarrow>
     \<exists>x. last cols = PyStr x \<and> (x \<noteq> [] \<longrightarrow> s \<noteq> [] \<and> last s = last x)"
proof (induction cols arbitrary: s rule: join_tab.induct)
  case 1
  then show ?case by simp
next
  case (2 n cs)
  then show ?case by simp
next
  case (3 x)
  then show ?case by simp
next
  case (4 x c cs)
  from "4.prems" obtain t where t: "join_tab (c # cs) = Inr t" and s: "s = x @ TAB # t"
    by (auto split: sum.splits)
  from "4.IH" [OF t] obtain y where
    y: "last (c # cs) = PyStr y" "y \<noteq> [] \<longrightarrow> t \<noteq> [] \<and> last t = last y"
    by auto
  then show ?case using s by auto
qed

text \<open>
  The record read from \<^verbatim>\<open>gene_line\<close> does not hold the text of the attributes column.
  Whatever list the name \<^verbatim>\<open>_GFF3_HEADERS\<close> were bound to, the writer's iterations would
  not print \<^verbatim>\<open>gene_line\<close> for it: the last column they write is the sequence
  identifier, a coordinate, a stored metadata value or \<^verbatim>\<open>.\<close>.
\<close>

lemma gene_record_not_written_back:
  "write_intervals (Some hs) ''ctg123'' [gene_record] out \<noteq> (out @ [gene_line], None)"
proof
  let ?md = "metadata gene_record"
  let ?b = "(999, 9000) :: int \<times> int"
  assume eq: "write_intervals (Some hs) ''ctg123'' [gene_record] out = (out @ [gene_line], None)"
  obtain vs where cols: "write_columns (drop 1 hs) ?b ?md [PyStr ''ctg123''] = [PyStr ''ctg123''] @ vs"
    and vs: "set vs \<subseteq> {PyStr (py_str (fst ?b + 1)), PyStr (py_str (snd ?b)), PyStr ''.''} \<union> ran ?md"
    using write_columns_append [of "drop 1 hs" ?b ?md "[PyStr ''ctg123'']"] by blast
  let ?cols = "PyStr ''ctg123'' # vs"
  have ran: "ran ?md \<subseteq> {PyStr ''.'', PyStr ''gene'', PyStr ''+''}"
    by (auto simp: gene_record_def ran_def split: if_splits)
  have strs: "py_str (fst ?b + 1) = ''1000''" "py_str (snd ?b) = ''9000''"
    by (simp_all add: py_str_def str_nat.simps)
  have last_in: "last ?cols \<in> {PyStr ''ctg123'', PyStr ''1000'', PyStr ''9000'', PyStr ''.'', PyStr ''gene'', PyStr ''+''}"
  proof (cases "vs = []")
    case True
    then show ?thesis by simp
  next
    case False
    then have "last vs \<in> set vs" by simp
    with vs ran have "last vs \<in>
        {PyStr ''1000'', PyStr ''9000'', PyStr ''.'', PyStr ''gene'', PyStr ''+''}"
      unfolding strs by blast
    with False show ?thesis by auto
  qed
  have wb: "write_intervals (Some hs) ''ctg123'' [gene_record] out =
      (case join_tab ?cols of Inl e \<Rightarrow> (out, Some e) | Inr line \<Rightarrow> (out @ [line], None))"
    using cols by (simp add: gene_record_def Let_def split: sum.splits)
  from eq wb have j: "join_tab ?cols = Inr gene_line"
    by (auto split: sum.splits)
  from join_tab_last [OF j] obtain x where
    x: "last ?cols = PyStr x" "x \<noteq> [] \<longrightarrow> gene_line \<noteq> [] \<and> last gene_line = last x"
    by blast
  have "last gene_line = CHR ''N''"
    by (simp add: gene_line_def)
  with last_in x show False
    by auto
qed

text \<open>
  C1 (round trip). Reading the input of the documentation's first data line gives the
  collection with the one record \<open>gene_record\<close>, whose metadata holds neither the phase
  nor the attributes column; writing that collection with the same sequence identifier
  prints the header line and raises \<^verbatim>\<open>NameError\<close>, so the data line is not written back.
\<close>

theorem roundtrip_gene_line:
  "gff3_to_interval_metadata [version_line @ [NL], gene_line @ [NL]] [] 1 =
     ([gene_record], None) \<and>
   interval_metadata_to_gff3 [gene_record] ''ctg123'' =
     ([''##gff-version 3''], Some (NameError ''_GFF3_HEADERS''))"
proof -
  have "gff3_to_interval_metadata [version_line @ [NL], gene_line @ [NL]] [] 1 =
      parse_record [gene_line] []"
    by (simp add: gff3_to_interval_metadata_def yield_record_gene get_nth_record_def)
  moreover have "interval_metadata_to_gff3 [gene_record] ''ctg123'' =
     ([''##gff-version 3''], Some (NameError ''_GFF3_HEADERS''))"
    by (simp add: interval_metadata_to_gff3_def GFF3_HEADERS_def write_intervals_unbound
        gene_record_def)
  ultimately show ?thesis
    by (simp only: parse_record_gene simp_thms)
qed

section \<open>The sniffer: results\<close>

lemma isspace_3: "\<not> isspace CHR ''3''"
  by (simp add: isspace_def)

text \<open>The match of the pattern, stated on the text of the line.\<close>

lemma match_gff_version_iff:
  "match_gff_version line \<longleftrightarrow>
     (\<exists>ws tail. line = ''##gff-version'' @ ws @ ''3'' @ tail \<and> ws \<noteq> [] \<and> list_all isspace ws)"
proof
  assume m: "match_gff_version line"
  let ?rest = "drop (length ''##gff-version'') line"
  from m have pre: "take (length ''##gff-version'') line = ''##gff-version''"
    and ws: "takeWhile isspace ?rest \<noteq> []"
    and three: "take 1 (dropWhile isspace ?rest) = ''3''"
    by (simp_all add: match_gff_version_def startswith_def Let_def)
  have "line = take (length ''##gff-version'') line @ ?rest"
    by (simp only: append_take_drop_id)
  also have "?rest = takeWhile isspace ?rest @ dropWhile isspace ?rest"
    by (simp only: takeWhile_dropWhile_id)
  also have "dropWhile isspace ?rest =
      take 1 (dropWhile isspace ?rest) @ drop 1 (dropWhile isspace ?rest)"
    by (simp only: append_take_drop_id)
  finally have "line =
      ''##gff-version'' @ takeWhile isspace ?rest @ ''3'' @ drop 1 (dropWhile isspace ?rest)"
    by (simp only: pre three)
  moreover have "list_all isspace (takeWhile isspace ?rest)"
    by (auto simp: list_all_iff dest: set_takeWhileD)
  ultimately show
    "\<exists>ws tail. line = ''##gff-version'' @ ws @ ''3'' @ tail \<and> ws \<noteq> [] \<and> list_all isspace ws"
    using ws by blast
next
  assume "\<exists>ws tail. line = ''##gff-version'' @ ws @ ''3'' @ tail \<and> ws \<noteq> [] \<and>
    list_all isspace ws"
  then obtain ws tail where line: "line = ''##gff-version'' @ ws @ ''3'' @ tail"
    and ws: "ws \<noteq> []" "list_all isspace ws"
    by blast
  have rest: "drop (length ''##gff-version'') line = ws @ ''3'' @ tail"
    by (simp add: line)
  have tw: "takeWhile isspace (ws @ ''3'' @ tail) = ws"
    using ws(2) isspace_3 by (simp add: list_all_iff takeWhile_append2)
  have dw: "dropWhile isspace (ws @ ''3'' @ tail) = ''3'' @ tail"
    using ws(2) isspace_3 by (simp add: list_all_iff dropWhile_append2)
  have "startswith line ''##gff-version''"
    by (simp add: line startswith_def)
  then show "match_gff_version line"
    unfolding match_gff_version_def Let_def rest tw dw using ws(1)
    by (simp add: startswith_def)
qed

lemma filter_not_dropWhile:
  "filter (\<lambda>x. \<not> P x) xs = filter (\<lambda>x. \<not> P x) (dropWhile P xs)"
  by (induction xs) auto

lemma next_line_nonblank:
  "next_line (line_generator fh True False) =
     (case dropWhile (list_all isspace) fh of
        [] \<Rightarrow> Inl StopIteration
      | line # _ \<Rightarrow> Inr line)"
proof -
  have lg: "line_generator fh True False =
      filter (\<lambda>l. \<not> list_all isspace l) (dropWhile (list_all isspace) fh)"
    unfolding line_generator_def using filter_not_dropWhile [of "list_all isspace" fh] by simp
  show ?thesis
  proof (cases "dropWhile (list_all isspace) fh")
    case Nil
    show ?thesis unfolding lg next_line_def Nil by simp
  next
    case (Cons l ls)
    then have "\<not> list_all isspace l"
      using hd_dropWhile [of "list_all isspace" fh] by simp
    then show ?thesis unfolding lg next_line_def Cons by simp
  qed
qed

lemma leading_blanks_unique:
  assumes "fh = blanks @ line # rest" and "list_all P blanks" and "\<not> P line"
  shows "takeWhile P fh = blanks \<and> dropWhile P fh = line # rest"
  using assms by (simp add: list_all_iff takeWhile_append2 dropWhile_append2)

lemma gff3_sniffer_result:
  "gff3_sniffer fh =
     Inr (length (takeWhile (list_all isspace) fh) \<le> 5 \<and>
          (case dropWhile (list_all isspace) fh of
             [] \<Rightarrow> False
           | line # _ \<Rightarrow> match_gff_version line),
          Map.empty)"
proof (cases "dropWhile (list_all isspace) fh")
  case Nil
  show ?thesis
    unfolding gff3_sniffer_def too_many_blanks_def next_line_nonblank Nil by simp
next
  case (Cons l ls)
  show ?thesis
    unfolding gff3_sniffer_def too_many_blanks_def next_line_nonblank Cons by auto
qed

lemma gff3_sniffer_general:
  "gff3_sniffer fh =
     Inr ((\<exists>blanks line rest ws tail.
             fh = blanks @ line # rest \<and> length blanks \<le> 5 \<and>
             list_all (list_all isspace) blanks \<and> \<not> list_all isspace line \<and>
             line = ''##gff-version'' @ ws @ ''3'' @ tail \<and> ws \<noteq> [] \<and> list_all isspace ws),
          Map.empty)"
    (is "_ = Inr (?spec, _)")
proof -
  let ?bl = "takeWhile (list_all isspace) fh"
  let ?rs = "dropWhile (list_all isspace) fh"
  let ?code = "length ?bl \<le> 5 \<and>
    (case ?rs of [] \<Rightarrow> False | line # _ \<Rightarrow> match_gff_version line)"
  have "?code \<longleftrightarrow> ?spec"
  proof
    assume c: ?code
    then obtain line rest where rs: "?rs = line # rest" and m: "match_gff_version line"
      by (auto split: list.splits)
    from m obtain ws tail where
      line: "line = ''##gff-version'' @ ws @ ''3'' @ tail" "ws \<noteq> []" "list_all isspace ws"
      using match_gff_version_iff by blast
    have "fh = ?bl @ line # rest"
      using rs takeWhile_dropWhile_id [of "list_all isspace" fh] by simp
    moreover have "list_all (list_all isspace) ?bl"
      by (auto simp: list_all_iff dest: set_takeWhileD)
    moreover have "\<not> list_all isspace line"
      using rs hd_dropWhile [of "list_all isspace" fh] by simp
    ultimately show ?spec
      using c line by blast
  next
    assume ?spec
    then obtain blanks line rest ws tail where
      fh: "fh = blanks @ line # rest" and len: "length blanks \<le> 5"
      and bl: "list_all (list_all isspace) blanks" and nb: "\<not> list_all isspace line"
      and line: "line = ''##gff-version'' @ ws @ ''3'' @ tail" "ws \<noteq> []" "list_all isspace ws"
      by blast
    from leading_blanks_unique [OF fh bl nb]
    have "?bl = blanks" "?rs = line # rest" by simp_all
    moreover have "match_gff_version line"
      using line match_gff_version_iff by blast
    ultimately show ?code
      using len by simp
  qed
  then show ?thesis
    by (simp only: gff3_sniffer_result)
qed

lemma gff3_sniffer_version_3:
  "gff3_sniffer ((version_line @ [NL]) # rest) = Inr (True, Map.empty)"
  by (simp add: gff3_sniffer_result isspace_def version_line_def match_gff_version_def
      startswith_def)

lemma gff3_sniffer_version_2:
  "gff3_sniffer ((''##gff-version'' @ TAB # ''2'' @ [NL]) # rest) = Inr (False, Map.empty)"
  by (simp add: gff3_sniffer_result isspace_def match_gff_version_def startswith_def)

lemma gff3_sniffer_exhausted: "gff3_sniffer [] = Inr (False, Map.empty)"
  by (simp add: gff3_sniffer_result)

lemma gff3_sniffer_six_blanks:
  "gff3_sniffer ([NL] # [NL] # [NL] # [NL] # [NL] # [NL] # rest) = Inr (False, Map.empty)"
  by (simp add: gff3_sniffer_result isspace_def)

lemma gff3_sniffer_five_blanks:
  "gff3_sniffer [[NL], '' '' @ [NL], [NL], [NL], [NL], version_line @ [NL]] =
     Inr (True, Map.empty)"
  by (simp add: gff3_sniffer_result isspace_def version_line_def match_gff_version_def
      startswith_def)

text \<open>
  C7 (sniffer). The sniffer never raises: it returns a truth value with the empty
  mapping. The truth value is true exactly when the stream is at most five blank lines,
  then a line that is not blank and is the text \<^verbatim>\<open>##gff-version\<close>, one or more whitespace
  characters, the character \<^verbatim>\<open>3\<close>, and any text. In particular a stream that starts with
  the line \<^verbatim>\<open>##gff-version\t3.2.1\<close> matches, and a stream that starts with
  \<^verbatim>\<open>##gff-version\t2\<close>, an exhausted stream and a stream that starts with six blank lines
  do not.
\<close>

theorem gff3_sniffer_spec:
  "gff3_sniffer fh =
     Inr ((\<exists>blanks line rest ws tail.
             fh = blanks @ line # rest \<and> length blanks \<le> 5 \<and>
             list_all (list_all isspace) blanks \<and> \<not> list_all isspace line \<and>
             line = ''##gff-version'' @ ws @ ''3'' @ tail \<and> ws \<noteq> [] \<and> list_all isspace ws),
          Map.empty) \<and>
   gff3_sniffer ((version_line @ [NL]) # rest1) = Inr (True, Map.empty) \<and>
   gff3_sniffer ((''##gff-version'' @ TAB # ''2'' @ [NL]) # rest2) = Inr (False, Map.empty) \<and>
   gff3_sniffer [] = Inr (False, Map.empty) \<and>
   gff3_sniffer ([NL] # [NL] # [NL] # [NL] # [NL] # [NL] # rest3) = Inr (False, Map.empty)"
  by (intro conjI gff3_sniffer_general gff3_sniffer_version_3 gff3_sniffer_version_2
      gff3_sniffer_exhausted gff3_sniffer_six_blanks)

theorem gff3_sniffer_spec_witness:
  "\<exists>blanks line rest ws tail.
     [[NL], '' '' @ [NL], [NL], [NL], [NL], version_line @ [NL]] = blanks @ line # rest \<and>
     length blanks \<le> 5 \<and> list_all (list_all isspace) blanks \<and> \<not> list_all isspace line \<and>
     line = ''##gff-version'' @ ws @ ''3'' @ tail \<and> ws \<noteq> [] \<and> list_all isspace ws"
  using gff3_sniffer_spec [of "[[NL], '' '' @ [NL], [NL], [NL], [NL], version_line @ [NL]]"]
    gff3_sniffer_five_blanks
  by (simp only: sum.inject prod.inject simp_thms)

section \<open>The attribute parser: results\<close>










end
